theory Spec2Isabelle
  imports Complex_Main
begin

section \<open>Python runtime: errors, strings, numbers\<close>

text \<open>
  Every exception the modelled code can raise is a value of \<open>error\<close>; a function that
  may raise returns \<open>error + 'a\<close> with \<open>Inl\<close> for the exception.
  \<open>DeserializationError\<close> is kloppy's format error; its payload is the offending field.
\<close>

datatype deser_reason =
    UnknownPlayerTeamID int
  | UnknownBallOwningTeam string
  | UnknownBallState string

datatype error =
    ValueError
  | ZeroDivisionError
  | UnicodeDecodeError
  | IndexError
  | KeyError
  | NameError
  | ParseError
  | TypeError
  | DeserializationError deser_reason

text \<open>
  Python floats are idealised as exact rationals. \<open>a % b\<close> on numbers is
  \<open>a - b * floor (a / b)\<close>; the caller checks \<open>b \<noteq> 0\<close>.
\<close>

definition pymod :: "rat \<Rightarrow> rat \<Rightarrow> rat" where
  "pymod a b = a - b * of_int \<lfloor>a / b\<rfloor>"

text \<open>\<open>timedelta\<close> is a number of seconds that is a whole number of microseconds;
  \<open>timedelta(seconds=s)\<close> rounds half to even.\<close>

definition round_half_even :: "rat \<Rightarrow> int" where
  "round_half_even q =
     (let f = \<lfloor>q\<rfloor>; d = q - of_int f
      in if d < 1 / 2 then f else if 1 / 2 < d then f + 1 else if even f then f else f + 1)"

definition timedelta_seconds :: "rat \<Rightarrow> rat" where
  "timedelta_seconds s = of_int (round_half_even (s * 1000000)) / 1000000"

text \<open>Whitespace of \<open>bytes.strip()\<close> and of \<open>str.strip()\<close> (on ASCII text).\<close>

definition bytes_space :: "char \<Rightarrow> bool" where
  "bytes_space c = (c \<in> set [CHR 0x20, CHR 0x09, CHR 0x0A, CHR 0x0B, CHR 0x0C, CHR 0x0D])"

definition str_space :: "char \<Rightarrow> bool" where
  "str_space c = (bytes_space c \<or> c \<in> set [CHR 0x1C, CHR 0x1D, CHR 0x1E, CHR 0x1F])"

definition strip_with :: "(char \<Rightarrow> bool) \<Rightarrow> string \<Rightarrow> string" where
  "strip_with P s = rev (dropWhile P (rev (dropWhile P s)))"

definition rstrip_char :: "char \<Rightarrow> string \<Rightarrow> string" where
  "rstrip_char c s = rev (dropWhile (\<lambda>d. d = c) (rev s))"

definition endswith :: "string \<Rightarrow> string \<Rightarrow> bool" where
  "endswith s suffix = (length suffix \<le> length s \<and> drop (length s - length suffix) s = suffix)"

text \<open>\<open>bytes.decode("ascii")\<close>: fails on a byte above 127.\<close>

definition decode_ascii :: "string \<Rightarrow> error + string" where
  "decode_ascii s = (if list_all (\<lambda>c. (of_char c :: nat) < 128) s then Inr s else Inl UnicodeDecodeError)"

text \<open>\<open>s.split(c)\<close> for a one-character separator: always at least one piece.\<close>

fun py_split :: "char \<Rightarrow> string \<Rightarrow> string list" where
  "py_split c [] = [[]]"
| "py_split c (d # ds) =
     (if d = c then [] # py_split c ds
      else (case py_split c ds of [] \<Rightarrow> [[d]] | p # ps \<Rightarrow> (d # p) # ps))"

text \<open>
  \<open>int(s)\<close> on text: surrounding whitespace is dropped, one sign is allowed, then decimal
  digits, where single underscores may stand between digits.
\<close>

definition digit_val :: "char \<Rightarrow> nat option" where
  "digit_val = map_of (zip ''0123456789'' [0, 1, 2, 3, 4, 5, 6, 7, 8, 9])"

fun int_body :: "bool \<Rightarrow> nat \<Rightarrow> string \<Rightarrow> nat option" where
  "int_body prev acc [] = (if prev then Some acc else None)"
| "int_body prev acc (c # cs) =
     (if c = CHR ''_'' then (if prev \<and> cs \<noteq> [] then int_body False acc cs else None)
      else (case digit_val c of
              None \<Rightarrow> None
            | Some d \<Rightarrow> int_body True (10 * acc + d) cs))"

definition py_int :: "string \<Rightarrow> error + int" where
  "py_int s =
     (case strip_with str_space s of
        [] \<Rightarrow> Inl ValueError
      | c # cs \<Rightarrow>
          (if c = CHR ''-'' then
             (case int_body False 0 cs of None \<Rightarrow> Inl ValueError | Some n \<Rightarrow> Inr (- int n))
           else if c = CHR ''+'' then
             (case int_body False 0 cs of None \<Rightarrow> Inl ValueError | Some n \<Rightarrow> Inr (int n))
           else
             (case int_body False 0 (c # cs) of None \<Rightarrow> Inl ValueError | Some n \<Rightarrow> Inr (int n))))"

text \<open>
  \<open>float(s)\<close> belongs to the runtime and reads into a double; the readers take it as a
  parameter \<open>to_float\<close> of type \<open>string \<Rightarrow> rat option\<close> (\<open>None\<close> is ValueError).
  \<open>decimal_float\<close> is the instance used to run the readers on concrete lines: an optional
  sign, digits, and an optional fraction.
\<close>

fun frac_body :: "nat \<Rightarrow> nat \<Rightarrow> string \<Rightarrow> (nat \<times> nat) option" where
  "frac_body num den [] = Some (num, den)"
| "frac_body num den (c # cs) =
     (case digit_val c of None \<Rightarrow> None | Some d \<Rightarrow> frac_body (10 * num + d) (10 * den) cs)"

definition unsigned_decimal :: "string \<Rightarrow> rat option" where
  "unsigned_decimal s =
     (let ip = takeWhile (\<lambda>c. c \<noteq> CHR ''.'') s; rest = dropWhile (\<lambda>c. c \<noteq> CHR ''.'') s
      in if ip = [] \<and> (rest = [] \<or> tl rest = []) then None
         else (case frac_body 0 1 ip of
                 None \<Rightarrow> None
               | Some (i, _) \<Rightarrow>
                   (case frac_body 0 1 (tl rest) of
                      None \<Rightarrow> None
                    | Some (num, den) \<Rightarrow> Some (of_nat i + of_nat num / of_nat den))))"

definition decimal_float :: "string \<Rightarrow> rat option" where
  "decimal_float s =
     (case strip_with str_space s of
        [] \<Rightarrow> None
      | c # cs \<Rightarrow>
          (if c = CHR ''-'' then map_option uminus (unsigned_decimal cs)
           else if c = CHR ''+'' then unsigned_decimal cs
           else unsigned_decimal (c # cs)))"

section \<open>Domain model (kloppy.domain)\<close>

datatype ground = HOME | AWAY

datatype ball_state = ALIVE | DEAD

text \<open>The readers name members \<open>LTR\<close>, \<open>RTL\<close> (TRACAB, PFF) and \<open>HOME_AWAY\<close>, \<open>NOT_SET\<close>
  (Sportec) of \<open>AttackingDirection\<close>.\<close>

datatype attacking_direction = LTR | RTL | AD_HOME_AWAY | AD_AWAY_HOME | AD_NOT_SET

datatype orientation = HOME_AWAY | AWAY_HOME | FIXED_HOME_AWAY | FIXED_AWAY_HOME | NOT_SET

text \<open>A jersey number is an int in rosters read from TRACAB metadata and a str in the
  PFF roster table; Python's \<open>==\<close> never equates the two.\<close>

datatype jersey = JInt int | JStr string

record player =
  player_id :: string
  team :: ground
  jersey_no :: jersey

record team_rec =
  ground :: ground
  players :: "player list"

record point =
  point_x :: "rat option"
  point_y :: "rat option"

record point3d =
  p3_x :: "rat option"
  p3_y :: "rat option"
  p3_z :: "rat option"

record player_data =
  coordinates :: "point option"
  speed :: "rat option"

record period =
  period_id :: int
  start_timestamp :: rat
  end_timestamp :: rat
  attacking_direction :: attacking_direction

text \<open>
  A Frame. \<open>players_data\<close> is a dict keyed by Player: an association list in insertion
  order, where assigning to a key that is present replaces its value in place.
  A team is referred to by its ground.
\<close>

record frame =
  frame_id :: int
  timestamp :: rat
  ball_coordinates :: "point3d option"
  ball_state :: "ball_state option"
  ball_owning_team :: "ground option"
  players_data :: "(player \<times> player_data) list"
  period :: period

fun dict_set :: "('k \<times> 'v) list \<Rightarrow> 'k \<Rightarrow> 'v \<Rightarrow> ('k \<times> 'v) list" where
  "dict_set [] k v = [(k, v)]"
| "dict_set ((k', v') # kvs) k v =
     (if k' = k then (k', v) # kvs else (k', v') # dict_set kvs k v)"

text \<open>\<open>str(team.ground)\<close>: the enum's value.\<close>

fun ground_str :: "ground \<Rightarrow> string" where
  "ground_str HOME = ''home''"
| "ground_str AWAY = ''away''"

text \<open>
  Modelled from the spec: \<open>Team.get_player_by_jersey_number\<close> (kloppy.domain, not among
  the source files). "Player resolution is by jersey number within the acting team's
  current roster": the argument is read as an int and the first player of the roster with
  that jersey number is returned, \<open>None\<close> when there is none.
\<close>

definition get_player_by_jersey_number :: "team_rec \<Rightarrow> string \<Rightarrow> error + player option" where
  "get_player_by_jersey_number t jersey_str =
     (case py_int jersey_str of
        Inl e \<Rightarrow> Inl e
      | Inr j \<Rightarrow> Inr (find (\<lambda>p. jersey_no p = JInt j) (players t)))"

text \<open>
  Modelled from the spec: the coordinate Transformer (kloppy.domain, not among the source
  files), "consumed as an opaque \<open>transform(frame) -> frame\<close>" service of coordinate
  normalisation: a map on 2D points and a map on 3D points, applied to every coordinate
  of the frame; the other fields are kept.
\<close>

record transformer =
  transform_point :: "point \<Rightarrow> point"
  transform_point3d :: "point3d \<Rightarrow> point3d"

definition transform_frame :: "transformer \<Rightarrow> frame \<Rightarrow> frame" where
  "transform_frame tr fr =
     fr\<lparr>ball_coordinates := map_option (transform_point3d tr) (ball_coordinates fr),
        players_data :=
          map (\<lambda>(p, d). (p, d\<lparr>coordinates := map_option (transform_point tr) (coordinates d)\<rparr>))
            (players_data fr)\<rparr>"

section \<open>TRACAB: the delimited text-line reader (tracab\_dat.py)\<close>

text \<open>\<open>teams\<close> is the list \<open>[teams[0], teams[1]]\<close> of the metadata; the rosters grow while
  frames are assembled, so the pair is threaded through as state.\<close>

type_synonym teams = "team_rec \<times> team_rec"

type_synonym pdict = "(player \<times> player_data) list"

text \<open>Lines 79-87 of \<open>_frame_from_line\<close>: look the jersey number up in the roster, and
  append a new Player when there is none.\<close>

definition resolve_player :: "team_rec \<Rightarrow> string \<Rightarrow> error + (player \<times> team_rec)" where
  "resolve_player t jersey =
     (case get_player_by_jersey_number t jersey of
        Inl e \<Rightarrow> Inl e
      | Inr (Some p) \<Rightarrow> Inr (p, t)
      | Inr None \<Rightarrow>
          (case py_int jersey of
             Inl e \<Rightarrow> Inl e
           | Inr j \<Rightarrow>
               (let p = \<lparr>player_id = ground_str (ground t) @ ''_'' @ jersey,
                         team = ground t, jersey_no = JInt j\<rparr>
                in Inr (p, t\<lparr>players := players t @ [p]\<rparr>))))"

definition make_player_data ::
  "(string \<Rightarrow> rat option) \<Rightarrow> string \<Rightarrow> string \<Rightarrow> string \<Rightarrow> error + player_data" where
  "make_player_data to_float sx sy sspeed =
     (case to_float sx of
        None \<Rightarrow> Inl ValueError
      | Some vx \<Rightarrow>
          (case to_float sy of
             None \<Rightarrow> Inl ValueError
           | Some vy \<Rightarrow>
               (case to_float sspeed of
                  None \<Rightarrow> Inl ValueError
                | Some vs \<Rightarrow>
                    Inr \<lparr>coordinates = Some \<lparr>point_x = Some vx, point_y = Some vy\<rparr>,
                         speed = Some vs\<rparr>)))"

text \<open>One pass of the loop over the player entries (lines 64-91).\<close>

definition player_entry ::
  "(string \<Rightarrow> rat option) \<Rightarrow> teams \<Rightarrow> pdict \<Rightarrow> string \<Rightarrow> error + (teams \<times> pdict)" where
  "player_entry to_float teams pdata entry =
     (let fs = py_split CHR '','' entry
      in if length fs \<noteq> 6 then Inl ValueError
         else
           (case py_int (fs ! 0) of
              Inl e \<Rightarrow> Inl e
            | Inr team_id \<Rightarrow>
                if team_id = 1 then
                  (case resolve_player (fst teams) (fs ! 2) of
                     Inl e \<Rightarrow> Inl e
                   | Inr (p, t') \<Rightarrow>
                       (case make_player_data to_float (fs ! 3) (fs ! 4) (fs ! 5) of
                          Inl e \<Rightarrow> Inl e
                        | Inr d \<Rightarrow> Inr ((t', snd teams), dict_set pdata p d)))
                else if team_id = 0 then
                  (case resolve_player (snd teams) (fs ! 2) of
                     Inl e \<Rightarrow> Inl e
                   | Inr (p, t') \<Rightarrow>
                       (case make_player_data to_float (fs ! 3) (fs ! 4) (fs ! 5) of
                          Inl e \<Rightarrow> Inl e
                        | Inr d \<Rightarrow> Inr ((fst teams, t'), dict_set pdata p d)))
                else if team_id = - 1 \<or> team_id = 3 \<or> team_id = 4 then Inr (teams, pdata)
                else Inl (DeserializationError (UnknownPlayerTeamID team_id))))"

fun player_entries ::
  "(string \<Rightarrow> rat option) \<Rightarrow> teams \<Rightarrow> pdict \<Rightarrow> string list \<Rightarrow> error + (teams \<times> pdict)" where
  "player_entries to_float teams pdata [] = Inr (teams, pdata)"
| "player_entries to_float teams pdata (entry # rest) =
     (case player_entry to_float teams pdata entry of
        Inl e \<Rightarrow> Inl e
      | Inr (teams', pdata') \<Rightarrow> player_entries to_float teams' pdata' rest)"

definition ball_owning_of :: "teams \<Rightarrow> string \<Rightarrow> error + ground" where
  "ball_owning_of teams code =
     (if code = ''H'' then Inr (ground (fst teams))
      else if code = ''A'' then Inr (ground (snd teams))
      else Inl (DeserializationError (UnknownBallOwningTeam code)))"

definition ball_state_of :: "string \<Rightarrow> error + ball_state" where
  "ball_state_of code =
     (if code = ''Alive'' then Inr ALIVE
      else if code = ''Dead'' then Inr DEAD
      else Inl (DeserializationError (UnknownBallState code)))"

definition make_point3d ::
  "(string \<Rightarrow> rat option) \<Rightarrow> string \<Rightarrow> string \<Rightarrow> string \<Rightarrow> error + point3d" where
  "make_point3d to_float sx sy sz =
     (case to_float sx of
        None \<Rightarrow> Inl ValueError
      | Some vx \<Rightarrow>
          (case to_float sy of
             None \<Rightarrow> Inl ValueError
           | Some vy \<Rightarrow>
               (case to_float sz of
                  None \<Rightarrow> Inl ValueError
                | Some vz \<Rightarrow> Inr \<lparr>p3_x = Some vx, p3_y = Some vy, p3_z = Some vz\<rparr>)))"

text \<open>
  The pieces \<open>_frame_from_line\<close> cuts a line into: the first three \<open>:\<close>-separated parts
  (tick, players, ball), the player entries (the \<open>;\<close>-separated pieces of the second part
  but the last), and the first six \<open>,\<close>-separated fields of the ball part.
\<close>

definition line_parts :: "string \<Rightarrow> string list" where
  "line_parts line = take 3 (py_split CHR '':'' (strip_with str_space line))"

definition player_fields :: "string list \<Rightarrow> string list" where
  "player_fields parts = butlast (py_split CHR '';'' (parts ! 1))"

definition ball_fields :: "string list \<Rightarrow> string list" where
  "ball_fields parts = take 6 (py_split CHR '','' (rstrip_char CHR '';'' (parts ! 2)))"

text \<open>\<open>TRACABDatDeserializer._frame_from_line\<close>. The result carries the teams, whose
  rosters the call may have extended.\<close>

definition frame_from_line ::
  "(string \<Rightarrow> rat option) \<Rightarrow> teams \<Rightarrow> period \<Rightarrow> string \<Rightarrow> rat \<Rightarrow> error + (frame \<times> teams)" where
  "frame_from_line to_float teams p line frame_rate =
     (let parts = line_parts line
      in if length parts \<noteq> 3 then Inl ValueError
         else
           (case player_entries to_float teams [] (player_fields parts) of
              Inl e \<Rightarrow> Inl e
            | Inr (teams', pdata) \<Rightarrow>
                (let bf = ball_fields parts
                 in if length bf \<noteq> 6 then Inl ValueError
                    else
                      (case py_int (parts ! 0) of
                         Inl e \<Rightarrow> Inl e
                       | Inr fid \<Rightarrow>
                           (case ball_owning_of teams' (bf ! 4) of
                              Inl e \<Rightarrow> Inl e
                            | Inr owner \<Rightarrow>
                                (case ball_state_of (bf ! 5) of
                                   Inl e \<Rightarrow> Inl e
                                 | Inr st \<Rightarrow>
                                     if frame_rate = 0 then Inl ZeroDivisionError
                                     else
                                       (case make_point3d to_float (bf ! 0) (bf ! 1) (bf ! 2) of
                                          Inl e \<Rightarrow> Inl e
                                        | Inr ball \<Rightarrow>
                                            Inr (\<lparr>frame_id = fid,
                                                  timestamp =
                                                    timedelta_seconds (of_int fid / frame_rate)
                                                      - start_timestamp p,
                                                  ball_coordinates = Some ball,
                                                  ball_state = Some st,
                                                  ball_owning_team = Some owner,
                                                  players_data = pdata,
                                                  period = p\<rparr>, teams'))))))))"

text \<open>
  The generator \<open>_iter\<close> of \<open>deserialize\<close>. A generator is the list of what it hands to its
  consumer, in order: \<open>Inr\<close> for a yielded item, and a final \<open>Inl\<close> when it raises.
  \<open>iter_periods\<close> is the inner loop over the periods for one line: it threads the counter
  \<open>n\<close>, which grows by one for each period that contains the tick.
\<close>

fun iter_periods ::
  "rat \<Rightarrow> rat \<Rightarrow> string \<Rightarrow> nat \<Rightarrow> period list \<Rightarrow> (period \<times> string) list \<times> nat" where
  "iter_periods sample t line n [] = ([], n)"
| "iter_periods sample t line n (p # ps) =
     (if start_timestamp p \<le> t \<and> t \<le> end_timestamp p then
        (let (ys, n') = iter_periods sample t line (Suc n) ps
         in ((if pymod (of_nat n) sample = 0 then [(p, line)] else []) @ ys, n'))
      else iter_periods sample t line n ps)"

text \<open>Line 164 and line 168: the cleaned line, and the tick read from its first ten
  characters.\<close>

definition clean_line :: "string \<Rightarrow> error + string" where
  "clean_line raw = decode_ascii (strip_with bytes_space raw)"

definition tick_of_line :: "string \<Rightarrow> error + int" where
  "tick_of_line line = py_int (takeWhile (\<lambda>c. c \<noteq> CHR '':'') (take 10 line))"

fun iter_lines ::
  "bool \<Rightarrow> period list \<Rightarrow> rat \<Rightarrow> rat \<Rightarrow> nat \<Rightarrow> string list \<Rightarrow> (error + period \<times> string) list" where
  "iter_lines only_alive periods frame_rate sample n [] = []"
| "iter_lines only_alive periods frame_rate sample n (raw # rest) =
     (case clean_line raw of
        Inl e \<Rightarrow> [Inl e]
      | Inr line \<Rightarrow>
          if line = [] then iter_lines only_alive periods frame_rate sample n rest
          else
            (case tick_of_line line of
               Inl e \<Rightarrow> [Inl e]
             | Inr fid \<Rightarrow>
                 if only_alive \<and> \<not> endswith line ''Alive;:'' then
                   iter_lines only_alive periods frame_rate sample n rest
                 else if periods = [] then
                   iter_lines only_alive periods frame_rate sample n rest
                 else if frame_rate = 0 then [Inl ZeroDivisionError]
                 else
                   (let (ys, n') =
                          iter_periods sample (timedelta_seconds (of_int fid / frame_rate))
                            line n periods
                    in map Inr ys @ iter_lines only_alive periods frame_rate sample n' rest)))"

definition tracab_iter ::
  "bool \<Rightarrow> period list \<Rightarrow> rat \<Rightarrow> rat \<Rightarrow> string list \<Rightarrow> (error + period \<times> string) list" where
  "tracab_iter only_alive periods frame_rate sample_rate raw_lines =
     (if sample_rate = 0 then [Inl ZeroDivisionError]
      else iter_lines only_alive periods frame_rate (1 / sample_rate) 0 raw_lines)"

text \<open>\<open>if self.limit and n >= self.limit\<close>: a limit of \<open>None\<close> or \<open>0\<close> never breaks.\<close>

definition limit_break :: "int option \<Rightarrow> nat \<Rightarrow> bool" where
  "limit_break limit n = (case limit of None \<Rightarrow> False | Some l \<Rightarrow> l \<noteq> 0 \<and> l \<le> int n)"

text \<open>The consuming loop of \<open>deserialize\<close> (lines 182-190); \<open>n\<close> is the index that
  \<open>enumerate\<close> gives the item.\<close>

fun tracab_consume ::
  "(string \<Rightarrow> rat option) \<Rightarrow> transformer \<Rightarrow> rat \<Rightarrow> int option \<Rightarrow> teams \<Rightarrow> nat \<Rightarrow>
   (error + period \<times> string) list \<Rightarrow> error + (frame list \<times> teams)" where
  "tracab_consume to_float tr frame_rate limit teams n [] = Inr ([], teams)"
| "tracab_consume to_float tr frame_rate limit teams n (Inl e # rest) = Inl e"
| "tracab_consume to_float tr frame_rate limit teams n (Inr (p, line) # rest) =
     (case frame_from_line to_float teams p line frame_rate of
        Inl e \<Rightarrow> Inl e
      | Inr (fr, teams') \<Rightarrow>
          if limit_break limit n then Inr ([transform_frame tr fr], teams')
          else
            (case tracab_consume to_float tr frame_rate limit teams' (Suc n) rest of
               Inl e \<Rightarrow> Inl e
             | Inr (frs, teams'') \<Rightarrow> Inr (transform_frame tr fr # frs, teams'')))"

record tracking_dataset =
  records :: "frame list"
  dataset_orientation :: orientation
  dataset_teams :: teams
  dataset_periods :: "period list"

text \<open>The deserializer object's settings, and what \<open>load_meta_data\<close> (not among the
  source files) returned for the archive's metadata.\<close>

record tracab_config =
  tc_limit :: "int option"
  tc_sample_rate :: rat
  tc_only_alive :: bool

record tracab_meta =
  tm_teams :: teams
  tm_periods :: "period list"
  tm_frame_rate :: rat

text \<open>\<open>attacking_direction_from_frame\<close> is kloppy.domain's primitive; it is a parameter.\<close>

definition tracab_orientation :: "(frame \<Rightarrow> attacking_direction) \<Rightarrow> frame list \<Rightarrow> orientation" where
  "tracab_orientation adf frames =
     (case find (\<lambda>fr. period_id (period fr) = 1) frames of
        None \<Rightarrow> NOT_SET
      | Some first_frame \<Rightarrow> if adf first_frame = LTR then HOME_AWAY else AWAY_HOME)"

definition tracab_deserialize ::
  "(string \<Rightarrow> rat option) \<Rightarrow> transformer \<Rightarrow> (frame \<Rightarrow> attacking_direction) \<Rightarrow>
   tracab_config \<Rightarrow> tracab_meta \<Rightarrow> string list \<Rightarrow> error + tracking_dataset" where
  "tracab_deserialize to_float tr adf cfg meta raw_lines =
     (case tracab_consume to_float tr (tm_frame_rate meta) (tc_limit cfg) (tm_teams meta) 0
             (tracab_iter (tc_only_alive cfg) (tm_periods meta) (tm_frame_rate meta)
                (tc_sample_rate cfg) raw_lines) of
        Inl e \<Rightarrow> Inl e
      | Inr (frames, teams') \<Rightarrow>
          Inr \<lparr>records = frames,
               dataset_orientation = tracab_orientation adf frames,
               dataset_teams = teams',
               dataset_periods = tm_periods meta\<rparr>)"

section \<open>Sportec: the attribute-markup reader (sportec/deserializer.py)\<close>

text \<open>
  The XML tree is taken as parsed: a \<open>FrameSet\<close> element with its attributes and its
  \<open>Frame\<close> children, whose numeric attributes are already numbers. An attribute that
  only ball entries carry is optional; reading a missing one is a KeyError.
\<close>

record frame_attr =
  attr_N :: int
  attr_X :: rat
  attr_Y :: rat
  attr_S :: rat
  attr_Z :: "rat option"
  attr_BallPossession :: "int option"
  attr_BallStatus :: "int option"

record frame_set =
  fs_GameSection :: string
  fs_TeamId :: string
  fs_PersonId :: string
  fs_children :: "frame_attr list"

record object_data =
  od_x :: rat
  od_y :: rat
  od_speed :: rat
  od_z :: "rat option"
  od_possession :: "int option"
  od_state :: "int option"

type_synonym raw_frames = "(int \<times> (string \<times> object_data) list) list"

definition PERIOD_ID_TO_GAME_SECTION :: "int \<Rightarrow> string option" where
  "PERIOD_ID_TO_GAME_SECTION i =
     (if i = 1 then Some ''firstHalf''
      else if i = 2 then Some ''secondHalf''
      else if i = 3 then Some ''firstHalfExtra''
      else if i = 4 then Some ''secondHalfExtra''
      else None)"

definition make_object_data :: "string \<Rightarrow> frame_attr \<Rightarrow> error + object_data" where
  "make_object_data key a =
     (if key = ''ball'' then
        (case (attr_Z a, attr_BallPossession a, attr_BallStatus a) of
           (Some z, Some poss, Some st) \<Rightarrow>
             Inr \<lparr>od_x = attr_X a, od_y = attr_Y a, od_speed = attr_S a,
                  od_z = Some z, od_possession = Some poss, od_state = Some st\<rparr>
         | _ \<Rightarrow> Inl KeyError)
      else
        Inr \<lparr>od_x = attr_X a, od_y = attr_Y a, od_speed = attr_S a,
             od_z = None, od_possession = None, od_state = None\<rparr>)"

text \<open>\<open>raw_frames[frame_id][key] = object_data\<close> on a \<open>defaultdict(dict)\<close>.\<close>

definition raw_frames_set :: "raw_frames \<Rightarrow> int \<Rightarrow> string \<Rightarrow> object_data \<Rightarrow> raw_frames" where
  "raw_frames_set rf fid key od =
     dict_set rf fid (dict_set (case map_of rf fid of None \<Rightarrow> [] | Some d \<Rightarrow> d) key od)"

fun read_children :: "string \<Rightarrow> raw_frames \<Rightarrow> frame_attr list \<Rightarrow> error + raw_frames" where
  "read_children key rf [] = Inr rf"
| "read_children key rf (a # as) =
     (case make_object_data key a of
        Inl e \<Rightarrow> Inl e
      | Inr od \<Rightarrow> read_children key (raw_frames_set rf (attr_N a) key od) as)"

fun read_frame_sets :: "raw_frames \<Rightarrow> frame_set list \<Rightarrow> error + raw_frames" where
  "read_frame_sets rf [] = Inr rf"
| "read_frame_sets rf (fs # rest) =
     (case read_children (if fs_TeamId fs = ''BALL'' then ''ball'' else fs_PersonId fs) rf
             (fs_children fs) of
        Inl e \<Rightarrow> Inl e
      | Inr rf' \<Rightarrow> read_frame_sets rf' rest)"

definition read_section_data :: "frame_set list \<Rightarrow> period \<Rightarrow> error + raw_frames" where
  "read_section_data data_root p =
     (case PERIOD_ID_TO_GAME_SECTION (period_id p) of
        None \<Rightarrow> Inl KeyError
      | Some game_section \<Rightarrow>
          read_frame_sets [] (filter (\<lambda>fs. fs_GameSection fs = game_section) data_root))"

record sportec_config =
  sc_limit :: "int option"
  sc_sample_rate :: rat
  sc_only_alive :: bool

text \<open>What \<open>_sportec_metadata_from_xml_elm\<close> (not among the source files) returned.\<close>

record sportec_meta =
  sm_teams :: teams
  sm_periods :: "period list"
  sm_fps :: rat

text \<open>\<open>player_map\<close>: the home players, then the away players; a later entry under the
  same id replaces the earlier one.\<close>

definition player_map :: "teams \<Rightarrow> string \<Rightarrow> player option" where
  "player_map tms = map_of (rev (map (\<lambda>pl. (player_id pl, pl)) (players (fst tms) @ players (snd tms))))"

fun sportec_players_data ::
  "(string \<Rightarrow> player option) \<Rightarrow> pdict \<Rightarrow> (string \<times> object_data) list \<Rightarrow> error + pdict" where
  "sportec_players_data pm acc [] = Inr acc"
| "sportec_players_data pm acc ((key, od) # rest) =
     (if key = ''ball'' then sportec_players_data pm acc rest
      else
        (case pm key of
           None \<Rightarrow> Inl KeyError
         | Some pl \<Rightarrow>
             sportec_players_data pm
               (dict_set acc pl
                  \<lparr>coordinates = Some \<lparr>point_x = Some (od_x od), point_y = Some (od_y od)\<rparr>,
                   speed = Some (od_speed od)\<rparr>)
               rest))"

text \<open>The \<open>Frame(...)\<close> expression of \<open>_iter\<close> (lines 170-198), for a tick whose ball entry
  is \<open>ball_data\<close>. The ball-owning team is the home team when possession is 1.\<close>

definition sportec_frame ::
  "sportec_meta \<Rightarrow> period \<Rightarrow> int \<Rightarrow> (string \<times> object_data) list \<Rightarrow> object_data \<Rightarrow> error + frame" where
  "sportec_frame meta p fid frame_data ball_data =
     (if sm_fps meta = 0 then Inl ZeroDivisionError
      else
        (case (od_possession ball_data, od_state ball_data) of
           (Some poss, Some st) \<Rightarrow>
             (case sportec_players_data (player_map (sm_teams meta)) [] frame_data of
                Inl e \<Rightarrow> Inl e
              | Inr pdata \<Rightarrow>
                  (case od_z ball_data of
                     None \<Rightarrow> Inl KeyError
                   | Some z \<Rightarrow>
                       Inr \<lparr>frame_id = fid,
                            timestamp = of_int fid / sm_fps meta - start_timestamp p,
                            ball_coordinates =
                              Some \<lparr>p3_x = Some (od_x ball_data), p3_y = Some (od_y ball_data),
                                    p3_z = Some z\<rparr>,
                            ball_state = Some (if st = 1 then ALIVE else DEAD),
                            ball_owning_team =
                              Some (if poss = 1 then ground (fst (sm_teams meta))
                                    else ground (snd (sm_teams meta))),
                            players_data = pdata,
                            period = p\<rparr>))
         | _ \<Rightarrow> Inl KeyError))"

text \<open>
  The loop over the ticks of one period. \<open>i\<close> is the index \<open>enumerate\<close> gives the tick
  within \<open>raw_frames.items()\<close>: it starts at 0 in every period and counts every tick, also
  the ones the two filters drop. \<open>k\<close> is the position of the period in \<open>periods\<close>, and
  \<open>follow\<close> is what the generator hands over after this period's ticks.
\<close>

fun sportec_iter_ticks ::
  "sportec_config \<Rightarrow> sportec_meta \<Rightarrow> nat \<Rightarrow> period \<Rightarrow> (error + nat \<times> frame) list \<Rightarrow> nat \<Rightarrow>
   raw_frames \<Rightarrow> (error + nat \<times> frame) list" where
  "sportec_iter_ticks cfg meta k p follow i [] = follow"
| "sportec_iter_ticks cfg meta k p follow i ((fid, frame_data) # rest) =
     (case map_of frame_data ''ball'' of
        None \<Rightarrow> sportec_iter_ticks cfg meta k p follow (Suc i) rest
      | Some ball_data \<Rightarrow>
          if sc_only_alive cfg \<and> od_state ball_data = None then [Inl KeyError]
          else if sc_only_alive cfg \<and> od_state ball_data \<noteq> Some 1 then
            sportec_iter_ticks cfg meta k p follow (Suc i) rest
          else if pymod (of_nat i) (1 / sc_sample_rate cfg) = 0 then
            (case sportec_frame meta p fid frame_data ball_data of
               Inl e \<Rightarrow> [Inl e]
             | Inr fr \<Rightarrow> Inr (k, fr) # sportec_iter_ticks cfg meta k p follow (Suc i) rest)
          else sportec_iter_ticks cfg meta k p follow (Suc i) rest)"

fun sportec_iter_periods ::
  "sportec_config \<Rightarrow> sportec_meta \<Rightarrow> frame_set list \<Rightarrow> nat \<Rightarrow> period list \<Rightarrow>
   (error + nat \<times> frame) list" where
  "sportec_iter_periods cfg meta data_root k [] = []"
| "sportec_iter_periods cfg meta data_root k (p # ps) =
     (case read_section_data data_root p of
        Inl e \<Rightarrow> [Inl e]
      | Inr raw \<Rightarrow>
          sportec_iter_ticks cfg meta k p
            (sportec_iter_periods cfg meta data_root (Suc k) ps) 0 raw)"

definition sportec_iter ::
  "sportec_config \<Rightarrow> sportec_meta \<Rightarrow> frame_set list \<Rightarrow> (error + nat \<times> frame) list" where
  "sportec_iter cfg meta data_root =
     (if sc_sample_rate cfg = 0 then [Inl ZeroDivisionError]
      else sportec_iter_periods cfg meta data_root 0 (sm_periods meta))"

text \<open>
  The consuming loop (lines 200-214). It keeps the frames in the local list \<open>frames\<close> and
  sets the attacking direction of a period at the first frame of it; the period objects
  are the ones of \<open>periods\<close>, so the list is threaded through as state.
\<close>

definition set_direction_once :: "(frame \<Rightarrow> attacking_direction) \<Rightarrow> frame \<Rightarrow> nat \<Rightarrow> period list \<Rightarrow> period list" where
  "set_direction_once adf fr k ps =
     (if k < length ps \<and> attacking_direction (ps ! k) = AD_NOT_SET
      then ps[k := (ps ! k)\<lparr>attacking_direction := adf fr\<rparr>]
      else ps)"

fun sportec_consume ::
  "transformer \<Rightarrow> (frame \<Rightarrow> attacking_direction) \<Rightarrow> int option \<Rightarrow> period list \<Rightarrow> nat \<Rightarrow>
   (error + nat \<times> frame) list \<Rightarrow> error + (frame list \<times> period list)" where
  "sportec_consume tr adf limit ps n [] = Inr ([], ps)"
| "sportec_consume tr adf limit ps n (Inl e # rest) = Inl e"
| "sportec_consume tr adf limit ps n (Inr (k, fr) # rest) =
     (let fr' = transform_frame tr fr; ps' = set_direction_once adf fr' k ps
      in if limit_break limit n then Inr ([fr'], ps')
         else
           (case sportec_consume tr adf limit ps' (Suc n) rest of
              Inl e \<Rightarrow> Inl e
            | Inr (frs, ps'') \<Rightarrow> Inr (fr' # frs, ps'')))"

text \<open>\<open>sportec_frames\<close> is the local list \<open>frames\<close> when the loop has ended.\<close>

definition sportec_frames ::
  "transformer \<Rightarrow> (frame \<Rightarrow> attacking_direction) \<Rightarrow> sportec_config \<Rightarrow> sportec_meta \<Rightarrow>
   frame_set list \<Rightarrow> error + (frame list \<times> period list)" where
  "sportec_frames tr adf cfg meta data_root =
     sportec_consume tr adf (sc_limit cfg) (sm_periods meta) 0 (sportec_iter cfg meta data_root)"

definition sportec_deserialize ::
  "transformer \<Rightarrow> (frame \<Rightarrow> attacking_direction) \<Rightarrow> sportec_config \<Rightarrow> sportec_meta \<Rightarrow>
   frame_set list \<Rightarrow> error + tracking_dataset" where
  "sportec_deserialize tr adf cfg meta data_root =
     (case sportec_frames tr adf cfg meta data_root of
        Inl e \<Rightarrow> Inl e
      | Inr (frs, ps) \<Rightarrow>
          (case ps of
             [] \<Rightarrow> Inl IndexError
           | p0 # _ \<Rightarrow>
               Inr \<lparr>records = [],
                    dataset_orientation =
                      (if attacking_direction p0 = AD_HOME_AWAY then FIXED_HOME_AWAY
                       else FIXED_AWAY_HOME),
                    dataset_teams = sm_teams meta,
                    dataset_periods = ps\<rparr>))"

section \<open>PFF: the compressed line-delimited reader (pff.py)\<close>

text \<open>
  A line of the raw file is a JSON object, taken as decoded: \<open>None\<close> stands for a line
  that \<open>json.loads\<close> rejects. A key read with \<open>.get\<close> or tested against \<open>None\<close> is
  optional; JSON numbers are numbers.
\<close>

record pff_ball =
  ball_x :: "rat option"
  ball_y :: "rat option"
  ball_z :: "rat option"

record pff_raw_player =
  jerseyNum :: int
  rp_x :: "rat option"
  rp_y :: "rat option"

record game_event =
  home_ball :: "bool option"

record pff_raw_frame =
  gameRefId :: int
  rf_period :: "int option"
  frameNum :: int
  periodGameClockTime :: rat
  rf_game_event :: "game_event option"
  ballsSmoothed :: "pff_ball option"
  homePlayersSmoothed :: "pff_raw_player list option"
  awayPlayersSmoothed :: "pff_raw_player list option"

text \<open>\<open>str(n)\<close> for an int.\<close>

fun nat_digits :: "nat \<Rightarrow> string" where
  "nat_digits n =
     (if n < 10 then [''0123456789'' ! n]
      else nat_digits (n div 10) @ [''0123456789'' ! (n mod 10)])"

definition py_str_int :: "int \<Rightarrow> string" where
  "py_str_int i = (if i < 0 then CHR ''-'' # nat_digits (nat (- i)) else nat_digits (nat i))"

text \<open>
  The inner \<open>for ... : if ...: break\<close> of \<open>_get_frame_data\<close> (lines 127-130, 142-145)
  leaves in the local \<open>player\<close> the roster entry with the jersey number, or, when no entry
  has it, the last entry of the roster; over an empty roster \<open>player\<close> keeps what it held
  (\<open>None\<close>: not yet bound).
\<close>

definition pff_find_player :: "player list \<Rightarrow> player option \<Rightarrow> int \<Rightarrow> player option" where
  "pff_find_player roster cur jersey =
     (case find (\<lambda>pl. jersey_no pl = JStr (py_str_int jersey)) roster of
        Some pl \<Rightarrow> Some pl
      | None \<Rightarrow> if roster = [] then cur else Some (last roster))"

fun pff_players_loop ::
  "player list \<Rightarrow> player option \<Rightarrow> pdict \<Rightarrow> pff_raw_player list \<Rightarrow> error + (player option \<times> pdict)" where
  "pff_players_loop roster cur pdata [] = Inr (cur, pdata)"
| "pff_players_loop roster cur pdata (rp # rest) =
     (case pff_find_player roster cur (jerseyNum rp) of
        None \<Rightarrow> Inl NameError
      | Some pl \<Rightarrow>
          pff_players_loop roster (Some pl)
            (dict_set pdata pl
               \<lparr>coordinates = Some \<lparr>point_x = rp_x rp, point_y = rp_y rp\<rparr>, speed = None\<rparr>)
            rest)"

text \<open>\<open>players\<close> is the dict \<open>{"HOME": {...}, "AWAY": {...}}\<close>, each side as the list of its
  values; \<open>periods\<close> is the dict of \<open>__get_periods\<close>.\<close>

definition get_frame_data ::
  "player list \<times> player list \<Rightarrow> (int \<times> period) list \<Rightarrow> ground option \<Rightarrow> pff_raw_frame \<Rightarrow> error + frame" where
  "get_frame_data rosters periods owning raw =
     (case rf_period raw of
        None \<Rightarrow> Inl KeyError
      | Some frame_period \<Rightarrow>
          (let ball =
                 (case ballsSmoothed raw of
                    None \<Rightarrow> \<lparr>p3_x = None, p3_y = None, p3_z = None\<rparr>
                  | Some b \<Rightarrow> \<lparr>p3_x = ball_x b, p3_y = ball_y b, p3_z = ball_z b\<rparr>)
           in case pff_players_loop (fst rosters) None []
                     (case homePlayersSmoothed raw of None \<Rightarrow> [] | Some l \<Rightarrow> l) of
                Inl e \<Rightarrow> Inl e
              | Inr (cur, pdata) \<Rightarrow>
                  (case pff_players_loop (snd rosters) cur pdata
                          (case awayPlayersSmoothed raw of None \<Rightarrow> [] | Some l \<Rightarrow> l) of
                     Inl e \<Rightarrow> Inl e
                   | Inr (cur', pdata') \<Rightarrow>
                       (case map_of periods frame_period of
                          None \<Rightarrow> Inl KeyError
                        | Some p \<Rightarrow>
                            Inr \<lparr>frame_id = frameNum raw,
                                 timestamp = timedelta_seconds (periodGameClockTime raw),
                                 ball_coordinates = Some ball,
                                 ball_state = None,
                                 ball_owning_team = owning,
                                 players_data = pdata',
                                 period = p\<rparr>))))"

text \<open>\<open>__get_periods\<close>: the frames are grouped by period in the order the periods first
  appear; a period runs from its first to its last frame number, over the frame rate.\<close>

fun frames_by_period ::
  "(int \<times> pff_raw_frame list) list \<Rightarrow> pff_raw_frame list \<Rightarrow> (int \<times> pff_raw_frame list) list" where
  "frames_by_period acc [] = acc"
| "frames_by_period acc (r # rs) =
     (case rf_period r of
        None \<Rightarrow> frames_by_period acc rs
      | Some k \<Rightarrow>
          frames_by_period
            (dict_set acc k ((case map_of acc k of None \<Rightarrow> [] | Some l \<Rightarrow> l) @ [r])) rs)"

definition get_periods :: "pff_raw_frame list \<Rightarrow> rat \<Rightarrow> error + (int \<times> period) list" where
  "get_periods tracking frame_rate =
     (let groups = frames_by_period [] tracking
      in if groups \<noteq> [] \<and> frame_rate = 0 then Inl ZeroDivisionError
         else
           Inr (map (\<lambda>(k, rs).
                  (k, \<lparr>period_id = k,
                       start_timestamp = timedelta_seconds (of_int (frameNum (hd rs)) / frame_rate),
                       end_timestamp = timedelta_seconds (of_int (frameNum (last rs)) / frame_rate),
                       attacking_direction = AD_NOT_SET\<rparr>))
                groups))"

text \<open>\<open>__load_json_raw\<close>: reading stops at line \<open>i\<close> once \<open>i >= limit / sample_rate\<close>.\<close>

fun load_json_raw ::
  "int option \<Rightarrow> rat \<Rightarrow> nat \<Rightarrow> pff_raw_frame option list \<Rightarrow> error + pff_raw_frame list" where
  "load_json_raw limit sample_rate i [] = Inr []"
| "load_json_raw limit sample_rate i (l # ls) =
     (if limit \<noteq> None \<and> limit \<noteq> Some 0 \<and> sample_rate = 0 then Inl ZeroDivisionError
      else if limit \<noteq> None \<and> limit \<noteq> Some 0 \<and> of_int (the limit) / sample_rate \<le> of_nat i then Inr []
      else
        (case l of
           None \<Rightarrow> Inl ParseError
         | Some r \<Rightarrow>
             (case load_json_raw limit sample_rate (Suc i) ls of
                Inl e \<Rightarrow> Inl e
              | Inr rs \<Rightarrow> Inr (r # rs))))"

text \<open>\<open>__check_att_direction\<close>: a vote over the first \<open>check_frames_counter\<close> frames.
  \<open>max(d, key=d.get)\<close> returns the first key, in insertion order, with the largest count.\<close>

fun count_directions ::
  "(attacking_direction \<times> nat) list \<Rightarrow> attacking_direction list \<Rightarrow> (attacking_direction \<times> nat) list" where
  "count_directions acc [] = acc"
| "count_directions acc (d # ds) =
     count_directions (dict_set acc d (Suc (case map_of acc d of None \<Rightarrow> 0 | Some c \<Rightarrow> c))) ds"

fun max_key :: "'k \<times> nat \<Rightarrow> ('k \<times> nat) list \<Rightarrow> 'k" where
  "max_key best [] = fst best"
| "max_key best (kv # kvs) = (if snd best < snd kv then max_key kv kvs else max_key best kvs)"

definition check_att_direction ::
  "(frame \<Rightarrow> attacking_direction) \<Rightarrow> frame list \<Rightarrow> nat \<Rightarrow> error + attacking_direction" where
  "check_att_direction adf et_frames check_frames_counter =
     (if length et_frames < check_frames_counter then Inl IndexError
      else
        (case count_directions [] (map adf (take check_frames_counter et_frames)) of
           [] \<Rightarrow> Inl ValueError
         | kv # kvs \<Rightarrow> Inr (max_key kv kvs)))"

text \<open>The mirror correction of the extra-time frames (lines 382-391).\<close>

definition flip_player_data :: "player_data \<Rightarrow> player_data" where
  "flip_player_data d =
     (case coordinates d of
        None \<Rightarrow> d
      | Some pt \<Rightarrow>
          (case point_x pt of
             None \<Rightarrow> d
           | Some vx \<Rightarrow>
               (case point_y pt of
                  None \<Rightarrow> d
                | Some vy \<Rightarrow> d\<lparr>coordinates := Some \<lparr>point_x = Some (- vx), point_y = Some (- vy)\<rparr>\<rparr>)))"

definition flip_ball :: "point3d option \<Rightarrow> point3d option" where
  "flip_ball b =
     (case b of
        None \<Rightarrow> None
      | Some pt \<Rightarrow>
          (case p3_x pt of
             None \<Rightarrow> Some pt
           | Some vx \<Rightarrow>
               (case p3_y pt of
                  None \<Rightarrow> Some pt
                | Some vy \<Rightarrow> Some \<lparr>p3_x = Some (- vx), p3_y = Some (- vy), p3_z = p3_z pt\<rparr>)))"

definition flip_frame :: "frame \<Rightarrow> frame" where
  "flip_frame fr =
     fr\<lparr>players_data := map (\<lambda>(pl, d). (pl, flip_player_data d)) (players_data fr),
        ball_coordinates := flip_ball (ball_coordinates fr)\<rparr>"

text \<open>
  The two CSV tables are taken as read and decoded: one record per row, the JSON cells
  reduced to the fields \<open>deserialize\<close> uses. \<open>mr_homeTeamStartLeft\<close> is \<open>None\<close> when the
  table has no such column; a cell is text, and it is true when it is not empty.
\<close>

record pff_meta_row =
  mr_id :: int
  mr_home_team_id :: string
  mr_away_team_id :: string
  mr_fps :: rat
  mr_homeTeamStartLeft :: "string option"

record pff_roster_row =
  rr_game_id :: int
  rr_team_id :: string
  rr_player_id :: string
  rr_shirtNumber :: string

record pff_inputs =
  meta_data :: "pff_meta_row list"
  roster_meta_data :: "pff_roster_row list"
  raw_data :: "pff_raw_frame option list"

record pff_config =
  pc_limit :: "int option"
  pc_sample_rate :: rat

text \<open>
  The loop over the roster rows (lines 291-316). \<open>team_string\<close> and \<open>team\<close> are set only
  when the row's team is the home or the away team, so a row of another team reuses the
  previous row's, and is a NameError when it comes first.
\<close>

fun build_players ::
  "string \<Rightarrow> string \<Rightarrow> ground option \<Rightarrow> (string \<times> player) list \<times> (string \<times> player) list \<Rightarrow>
   pff_roster_row list \<Rightarrow> error + (string \<times> player) list \<times> (string \<times> player) list" where
  "build_players home_team_id away_team_id team_string dicts [] = Inr dicts"
| "build_players home_team_id away_team_id team_string dicts (row # rest) =
     (let team_string' =
            (if rr_team_id row = home_team_id then Some HOME
             else if rr_team_id row = away_team_id then Some AWAY
             else team_string)
      in case team_string' of
           None \<Rightarrow> Inl NameError
         | Some g \<Rightarrow>
             (let pl = \<lparr>player_id = rr_player_id row, team = g,
                        jersey_no = JStr (rr_shirtNumber row)\<rparr>
              in build_players home_team_id away_team_id team_string'
                   (if g = HOME then (dict_set (fst dicts) (rr_player_id row) pl, snd dicts)
                    else (fst dicts, dict_set (snd dicts) (rr_player_id row) pl))
                   rest))"

text \<open>What \<open>deserialize\<close> has computed when it reaches the frame loop (lines 228-326).\<close>

record pff_context =
  ctx_raw_data :: "pff_raw_frame list"
  ctx_rosters :: "player list \<times> player list"
  ctx_periods :: "(int \<times> period) list"
  ctx_orientation :: orientation
  ctx_first_period_attacking_direction :: attacking_direction

definition pff_prepare :: "pff_config \<Rightarrow> pff_inputs \<Rightarrow> error + pff_context" where
  "pff_prepare cfg inputs =
     (case load_json_raw (pc_limit cfg) (pc_sample_rate cfg) 0 (raw_data inputs) of
        Inl e \<Rightarrow> Inl e
      | Inr [] \<Rightarrow> Inl IndexError
      | Inr (first # others) \<Rightarrow>
          (case filter (\<lambda>row. mr_id row = gameRefId first) (meta_data inputs) of
             [] \<Rightarrow> Inl IndexError
           | metadata # _ \<Rightarrow>
               (case get_periods (first # others) (mr_fps metadata) of
                  Inl e \<Rightarrow> Inl e
                | Inr periods \<Rightarrow>
                    (case build_players (mr_home_team_id metadata) (mr_away_team_id metadata)
                            None ([], [])
                            (filter (\<lambda>row. rr_game_id row = gameRefId first)
                               (roster_meta_data inputs)) of
                       Inl e \<Rightarrow> Inl e
                     | Inr dicts \<Rightarrow>
                         (case mr_homeTeamStartLeft metadata of
                            None \<Rightarrow> Inl KeyError
                          | Some cell \<Rightarrow>
                              if cell = [] then Inl TypeError
                              else
                                Inr \<lparr>ctx_raw_data = first # others,
                                     ctx_rosters = (map snd (fst dicts), map snd (snd dicts)),
                                     ctx_periods = periods,
                                     ctx_orientation = HOME_AWAY,
                                     ctx_first_period_attacking_direction = LTR\<rparr>)))))"

text \<open>
  The generator \<open>_iter\<close> (lines 330-348). It writes \<open>self._ball_owning_team\<close>, which the
  consuming loop reads when it is handed a frame: an item carries the value the field has
  at its \<open>yield\<close>. The second component is the value the field has when the generator
  is exhausted. \<open>owning\<close> is the field's value on entry.
\<close>

definition observe_possession :: "ground option \<Rightarrow> pff_raw_frame \<Rightarrow> ground option" where
  "observe_possession owning r =
     (case rf_game_event r of
        None \<Rightarrow> owning
      | Some ge \<Rightarrow>
          (case home_ball ge of
             None \<Rightarrow> owning
           | Some hb \<Rightarrow> Some (if hb then HOME else AWAY)))"

fun pff_iter ::
  "rat \<Rightarrow> nat \<Rightarrow> ground option \<Rightarrow> pff_raw_frame list \<Rightarrow>
   (pff_raw_frame \<times> int \<times> ground option) list \<times> ground option" where
  "pff_iter sample n owning [] = ([], owning)"
| "pff_iter sample n owning (r # rs) =
     (let owning' = observe_possession owning r
      in case rf_period r of
           None \<Rightarrow> pff_iter sample n owning' rs
         | Some frame_period \<Rightarrow>
             (let (ys, final) = pff_iter sample (Suc n) owning' rs
              in ((if pymod (of_nat n) sample = 0 then [(r, frame_period, owning')] else []) @ ys,
                  final)))"

text \<open>
  The consuming loop (lines 350-375): the regular-time frames, the extra-time frames, and
  the value of \<open>self._ball_owning_team\<close> when the loop is left. \<open>n_frames\<close> counts the
  frames assembled before the item.
\<close>

fun pff_consume ::
  "pff_context \<Rightarrow> int option \<Rightarrow> ground option \<Rightarrow> nat \<Rightarrow> (pff_raw_frame \<times> int \<times> ground option) list \<Rightarrow>
   (error + frame list \<times> frame list) \<times> ground option" where
  "pff_consume ctx limit final n_frames [] = (Inr ([], []), final)"
| "pff_consume ctx limit final n_frames ((r, frame_period, owning) # rest) =
     (case get_frame_data (ctx_rosters ctx) (ctx_periods ctx) owning r of
        Inl e \<Rightarrow> (Inl e, owning)
      | Inr fr \<Rightarrow>
          (let reg = (if frame_period = 1 \<or> frame_period = 2 then [fr] else []);
               et = (if frame_period = 1 \<or> frame_period = 2 then []
                     else if frame_period = 3 \<or> frame_period = 4 then [fr] else [])
           in if limit_break limit (Suc n_frames) then (Inr (reg, et), owning)
              else
                (case pff_consume ctx limit final (Suc n_frames) rest of
                   (Inl e, s) \<Rightarrow> (Inl e, s)
                 | (Inr (frs, ets), s) \<Rightarrow> (Inr (reg @ frs, et @ ets), s))))"

text \<open>Lines 377-393: the vote over the first 25 extra-time frames and the mirroring.\<close>

definition correct_extra_time ::
  "(frame \<Rightarrow> attacking_direction) \<Rightarrow> attacking_direction \<Rightarrow> frame list \<Rightarrow> error + frame list" where
  "correct_extra_time adf first_period_attacking_direction et_frames =
     (if et_frames = [] then Inr []
      else
        (case check_att_direction adf et_frames 25 of
           Inl e \<Rightarrow> Inl e
         | Inr et_attacking_direction \<Rightarrow>
             if first_period_attacking_direction \<noteq> et_attacking_direction
             then Inr (map flip_frame et_frames)
             else Inr et_frames))"

text \<open>
  \<open>PFF_TrackingDeserializer.deserialize\<close>, on a deserializer object whose field
  \<open>_ball_owning_team\<close> holds \<open>self_owning\<close>; \<open>__init__\<close> sets the field to \<open>None\<close>. The result
  is what the call returns or raises, and the field's value afterwards.
\<close>

definition pff_init :: "ground option" where
  "pff_init = None"

definition pff_frames ::
  "pff_config \<Rightarrow> pff_context \<Rightarrow> ground option \<Rightarrow> (error + frame list \<times> frame list) \<times> ground option" where
  "pff_frames cfg ctx self_owning =
     (if pc_sample_rate cfg = 0 then (Inl ZeroDivisionError, self_owning)
      else
        pff_consume ctx (pc_limit cfg)
          (snd (pff_iter (1 / pc_sample_rate cfg) 0 self_owning (ctx_raw_data ctx))) 0
          (fst (pff_iter (1 / pc_sample_rate cfg) 0 self_owning (ctx_raw_data ctx))))"

definition pff_dataset :: "pff_context \<Rightarrow> frame list \<Rightarrow> tracking_dataset" where
  "pff_dataset ctx frs =
     \<lparr>records = frs,
      dataset_orientation = ctx_orientation ctx,
      dataset_teams =
        (\<lparr>ground = HOME, players = fst (ctx_rosters ctx)\<rparr>,
         \<lparr>ground = AWAY, players = snd (ctx_rosters ctx)\<rparr>),
      dataset_periods = sort_key period_id (map snd (ctx_periods ctx))\<rparr>"

definition pff_deserialize ::
  "(frame \<Rightarrow> attacking_direction) \<Rightarrow> pff_config \<Rightarrow> ground option \<Rightarrow> pff_inputs \<Rightarrow>
   (error + tracking_dataset) \<times> ground option" where
  "pff_deserialize adf cfg self_owning inputs =
     (case pff_prepare cfg inputs of
        Inl e \<Rightarrow> (Inl e, self_owning)
      | Inr ctx \<Rightarrow>
          (case pff_frames cfg ctx self_owning of
             (Inl e, s) \<Rightarrow> (Inl e, s)
           | (Inr (frs, et_frames), s) \<Rightarrow>
               (case correct_extra_time adf (ctx_first_period_attacking_direction ctx)
                       et_frames of
                  Inl e \<Rightarrow> (Inl e, s)
                | Inr et_frames' \<Rightarrow> (Inr (pff_dataset ctx (frs @ et_frames')), s))))"

section \<open>Concrete archives\<close>

text \<open>Small inputs on which the readers are run below.\<close>

definition ex_pff_meta :: "pff_meta_row list" where
  "ex_pff_meta =
     [\<lparr>mr_id = 1, mr_home_team_id = ''H1'', mr_away_team_id = ''A1'', mr_fps = 10,
       mr_homeTeamStartLeft = Some ''True''\<rparr>]"

definition ex_pff_roster :: "pff_roster_row list" where
  "ex_pff_roster =
     [\<lparr>rr_game_id = 1, rr_team_id = ''H1'', rr_player_id = ''p1'', rr_shirtNumber = ''7''\<rparr>,
      \<lparr>rr_game_id = 1, rr_team_id = ''H1'', rr_player_id = ''p2'', rr_shirtNumber = ''8''\<rparr>,
      \<lparr>rr_game_id = 1, rr_team_id = ''A1'', rr_player_id = ''p3'', rr_shirtNumber = ''9''\<rparr>]"

text \<open>A raw PFF frame of period \<open>k\<close> with frame number \<open>i\<close>, possession cell \<open>ge\<close>, and one
  home player with jersey number \<open>j\<close>.\<close>

definition ex_pff_frame :: "int \<Rightarrow> int \<Rightarrow> game_event option \<Rightarrow> int \<Rightarrow> pff_raw_frame" where
  "ex_pff_frame k i ge j =
     \<lparr>gameRefId = 1, rf_period = Some k, frameNum = i, periodGameClockTime = of_int i / 10,
      rf_game_event = ge,
      ballsSmoothed = Some \<lparr>ball_x = Some 3, ball_y = Some (- 4), ball_z = Some 1\<rparr>,
      homePlayersSmoothed = Some [\<lparr>jerseyNum = j, rp_x = Some 5, rp_y = Some 6\<rparr>],
      awayPlayersSmoothed = None\<rparr>"

definition ex_pff_config :: pff_config where
  "ex_pff_config = \<lparr>pc_limit = None, pc_sample_rate = 1\<rparr>"

definition ex_pff_inputs :: "pff_raw_frame list \<Rightarrow> pff_inputs" where
  "ex_pff_inputs rs =
     \<lparr>meta_data = ex_pff_meta, roster_meta_data = ex_pff_roster, raw_data = map Some rs\<rparr>"

definition ex_transformer :: transformer where
  "ex_transformer = \<lparr>transform_point = (\<lambda>pt. pt), transform_point3d = (\<lambda>pt. pt)\<rparr>"

text \<open>TRACAB metadata: two teams with empty rosters, one period from second 100 to second
  200, 25 frames per second.\<close>

definition ex_tracab_meta :: tracab_meta where
  "ex_tracab_meta =
     \<lparr>tm_teams = (\<lparr>ground = HOME, players = []\<rparr>, \<lparr>ground = AWAY, players = []\<rparr>),
      tm_periods =
        [\<lparr>period_id = 1, start_timestamp = 100, end_timestamp = 200,
          attacking_direction = AD_NOT_SET\<rparr>],
      tm_frame_rate = 25\<rparr>"

definition ex_tracab_config :: "int option \<Rightarrow> rat \<Rightarrow> tracab_config" where
  "ex_tracab_config limit sample_rate =
     \<lparr>tc_limit = limit, tc_sample_rate = sample_rate, tc_only_alive = True\<rparr>"

text \<open>A Sportec archive: one period, a ball track with two live ticks and one player
  track.\<close>

definition ex_sportec_meta :: sportec_meta where
  "ex_sportec_meta =
     \<lparr>sm_teams =
        (\<lparr>ground = HOME, players = [\<lparr>player_id = ''P1'', team = HOME, jersey_no = JInt 7\<rparr>]\<rparr>,
         \<lparr>ground = AWAY, players = []\<rparr>),
      sm_periods =
        [\<lparr>period_id = 1, start_timestamp = 0, end_timestamp = 2700,
          attacking_direction = AD_NOT_SET\<rparr>],
      sm_fps = 25\<rparr>"

definition ex_sportec_tick :: "int \<Rightarrow> bool \<Rightarrow> frame_attr" where
  "ex_sportec_tick n is_ball =
     \<lparr>attr_N = n, attr_X = 1, attr_Y = 2, attr_S = 3,
      attr_Z = (if is_ball then Some 0 else None),
      attr_BallPossession = (if is_ball then Some 1 else None),
      attr_BallStatus = (if is_ball then Some 1 else None)\<rparr>"

definition ex_sportec_data :: "frame_set list" where
  "ex_sportec_data =
     [\<lparr>fs_GameSection = ''firstHalf'', fs_TeamId = ''BALL'', fs_PersonId = ''DFL-OBJ-0000XT'',
       fs_children = [ex_sportec_tick 10000 True, ex_sportec_tick 10001 True]\<rparr>,
      \<lparr>fs_GameSection = ''firstHalf'', fs_TeamId = ''DFL-CLU-000004'', fs_PersonId = ''P1'',
       fs_children = [ex_sportec_tick 10000 False, ex_sportec_tick 10001 False]\<rparr>]"

definition ex_sportec_config :: sportec_config where
  "ex_sportec_config = \<lparr>sc_limit = None, sc_sample_rate = 1, sc_only_alive = True\<rparr>"

section \<open>Reference notions of the specification\<close>

text \<open>The possession value a raw PFF record states itself; \<open>None\<close> when it omits it.\<close>

definition explicit_possession :: "pff_raw_frame \<Rightarrow> ground option" where
  "explicit_possession r =
     (case rf_game_event r of
        None \<Rightarrow> None
      | Some ge \<Rightarrow> map_option (\<lambda>hb. if hb then HOME else AWAY) (home_ball ge))"

text \<open>
  "The most recently observed explicit possession value" among the records \<open>rs\<close>; before
  any record has stated one it is \<open>owning\<close>, the value held on entry. \<open>carried owning raw\<close>
  lists it for every position of the stream, the record at the position included.
\<close>

definition last_known :: "ground option \<Rightarrow> pff_raw_frame list \<Rightarrow> ground option" where
  "last_known owning rs =
     (case filter (\<lambda>v. v \<noteq> None) (map explicit_possession rs) of
        [] \<Rightarrow> owning
      | v # vs \<Rightarrow> last (v # vs))"



text \<open>Three consecutive PFF records of period 1 whose possession cells are: home,
  absent, away.\<close>

definition ex_possession_stream :: "pff_raw_frame list" where
  "ex_possession_stream =
     [ex_pff_frame 1 1 (Some \<lparr>home_ball = Some True\<rparr>) 7,
      ex_pff_frame 1 2 None 7,
      ex_pff_frame 1 3 (Some \<lparr>home_ball = Some False\<rparr>) 7]"




text \<open>Three live TRACAB lines whose ticks 2500, 2501, 2502 lie in the period of
  \<open>ex_tracab_meta\<close>.\<close>

definition ex_tracab_lines :: "string list" where
  "ex_tracab_lines =
     [''2500::10.0,0.0,0.5,9.0,H,Alive;:'', ''2501::10.0,0.0,0.5,9.0,H,Alive;:'',
      ''2502::10.0,0.0,0.5,9.0,H,Alive;:'']"

definition ex_period :: period where
  "ex_period =
     \<lparr>period_id = 1, start_timestamp = 100, end_timestamp = 200,
      attacking_direction = AD_NOT_SET\<rparr>"

text \<open>A raw TRACAB line whose tick field is at most ten characters long, the length
  \<open>_iter\<close> reads the tick from.\<close>

definition tick_short :: "string \<Rightarrow> bool" where
  "tick_short raw = (length (takeWhile (\<lambda>c. c \<noteq> CHR '':'') (strip_with bytes_space raw)) \<le> 10)"

section \<open>Properties\<close>

subsection \<open>The extra-time mirror correction\<close>

lemma flip_player_data_twice: "flip_player_data (flip_player_data d) = d"
  by (cases d) (auto simp: flip_player_data_def split: option.splits)

lemma flip_player_data_speed: "speed (flip_player_data d) = speed d"
  by (auto simp: flip_player_data_def split: option.splits)

lemma flip_ball_twice: "flip_ball (flip_ball b) = b"
  by (auto simp: flip_ball_def split: option.splits)

lemma flip_ball_z: "map_option p3_z (flip_ball b) = map_option p3_z b"
  by (auto simp: flip_ball_def split: option.splits)

lemma flip_frame_twice: "flip_frame (flip_frame fr) = fr"
  by (cases fr)
    (simp add: flip_frame_def flip_ball_twice flip_player_data_twice comp_def case_prod_unfold)

text \<open>
  Claim C9. The mirror correction of an extra-time frame is its own inverse: applied
  twice it gives the frame back, coordinates included. Applied once it keeps the ball's
  z-coordinate, the frame id, the timestamp, the ball state, the ball-owning team, the
  period, the players the frame has data for, and their speeds.
\<close>

theorem mirror_correction_self_inverse:
  "flip_frame (flip_frame fr) = fr
   \<and> map_option p3_z (ball_coordinates (flip_frame fr)) = map_option p3_z (ball_coordinates fr)
   \<and> frame_id (flip_frame fr) = frame_id fr
   \<and> timestamp (flip_frame fr) = timestamp fr
   \<and> ball_state (flip_frame fr) = ball_state fr
   \<and> ball_owning_team (flip_frame fr) = ball_owning_team fr
   \<and> period (flip_frame fr) = period fr
   \<and> map fst (players_data (flip_frame fr)) = map fst (players_data fr)
   \<and> map (speed \<circ> snd) (players_data (flip_frame fr)) = map (speed \<circ> snd) (players_data fr)"
  by (simp add: flip_frame_twice)
    (simp add: flip_frame_def flip_ball_z flip_player_data_speed comp_def case_prod_unfold)

subsection \<open>The direction vote over a short extra-time segment\<close>

text \<open>
  Claim C10. When the frame loop of the PFF reader ends with at least one and fewer than
  25 buffered extra-time frames, the vote over the first 25 of them reads past the end of
  the list, and \<open>deserialize\<close> raises IndexError instead of returning a dataset.
\<close>

theorem short_extra_time_index_error:
  assumes "pff_prepare cfg inputs = Inr ctx"
    and "pff_frames cfg ctx self_owning = (Inr (frs, et_frames), s)"
    and "et_frames \<noteq> []"
    and "length et_frames < 25"
  shows "check_att_direction adf et_frames 25 = Inl IndexError
         \<and> pff_deserialize adf cfg self_owning inputs = (Inl IndexError, s)"
  using assms
  by (simp add: pff_deserialize_def correct_extra_time_def check_att_direction_def)

theorem short_extra_time_index_error_witness:
  "pff_deserialize (\<lambda>_. RTL) ex_pff_config pff_init (ex_pff_inputs [ex_pff_frame 3 1 None 7])
     = (Inl IndexError, None)"
proof -
  let ?inp = "ex_pff_inputs [ex_pff_frame 3 1 None 7]"
  let ?ctx = "projr (pff_prepare ex_pff_config ?inp)"
  let ?res = "pff_frames ex_pff_config ?ctx pff_init"
  have "\<not> isl (pff_prepare ex_pff_config ?inp)" by code_simp
  then have h1: "pff_prepare ex_pff_config ?inp = Inr ?ctx" by simp
  have "\<not> isl (fst ?res)" by code_simp
  then have h2: "?res = (Inr (fst (projr (fst ?res)), snd (projr (fst ?res))), snd ?res)"
    by (simp add: prod_eq_iff)
  have h3: "snd (projr (fst ?res)) \<noteq> []" by code_simp
  have h4: "length (snd (projr (fst ?res))) < 25" by code_simp
  have h5: "snd ?res = None" by code_simp
  from short_extra_time_index_error [OF h1 h2 h3 h4, of "\<lambda>_. RTL"] h5 show ?thesis by simp
qed

subsection \<open>Evaluations of the readers on concrete archives\<close>

text \<open>
  Claim C4. With \<open>limit = 1\<close> the output should hold at most one frame. The TRACAB loop
  tests \<open>n >= limit\<close> on the index that \<open>enumerate\<close> gives the frame it has just appended,
  so on three live lines inside the period it returns two frames.
\<close>

theorem tracab_limit_keeps_one_frame_more:
  "map_sum id (\<lambda>d. map frame_id (records d))
     (tracab_deserialize decimal_float ex_transformer (\<lambda>_. LTR) (ex_tracab_config (Some 1) 1)
        ex_tracab_meta
        [''2500::10.0,0.0,0.5,9.0,H,Alive;:'', ''2501::10.0,0.0,0.5,9.0,H,Alive;:'',
         ''2502::10.0,0.0,0.5,9.0,H,Alive;:''])
   = Inr [2500, 2501]"
  by code_simp

text \<open>
  Claim C2. With \<open>sample_rate = 1.0\<close> and no limit the returned dataset should hold one
  frame per eligible raw record. The Sportec reader assembles the frames of both eligible
  ticks into its local list \<open>frames\<close>, and returns a dataset whose records are the empty
  list.
\<close>

theorem sportec_returns_no_records:
  "map_sum id (\<lambda>r. map frame_id (fst r))
     (sportec_frames ex_transformer (\<lambda>_. AD_HOME_AWAY) ex_sportec_config ex_sportec_meta
        ex_sportec_data)
     = Inr [10000, 10001]
   \<and> map_sum id records
       (sportec_deserialize ex_transformer (\<lambda>_. AD_HOME_AWAY) ex_sportec_config ex_sportec_meta
          ex_sportec_data)
     = Inr []"
  by code_simp

text \<open>
  Claim C6. A jersey number that the roster does not hold should add one placeholder
  player to the roster. The PFF reader has the home roster \<open>p1\<close> (jersey 7), \<open>p2\<close>
  (jersey 8); for two frames with a home player of jersey 99 it files the data under
  \<open>p2\<close>, the last roster entry, and the roster stays as it was.
\<close>

theorem pff_unseen_jersey_goes_to_last_player:
  "map_sum id
     (\<lambda>d. (map (map (player_id \<circ> fst) \<circ> players_data) (records d),
           map player_id (players (fst (dataset_teams d)))))
     (fst (pff_deserialize (\<lambda>_. LTR) ex_pff_config pff_init
             (ex_pff_inputs [ex_pff_frame 1 1 None 99, ex_pff_frame 1 2 None 99])))
   = Inr ([[''p2''], [''p2'']], [''p1'', ''p2''])"
  by code_simp

subsection \<open>Possession carry-forward in the PFF reader\<close>

lemma observe_explicit:
  "observe_possession owning r = (case explicit_possession r of None \<Rightarrow> owning | Some g \<Rightarrow> Some g)"
  by (auto simp: observe_possession_def explicit_possession_def split: option.splits)

lemma last_known_Nil: "last_known owning [] = owning"
  by (simp add: last_known_def)

lemma last_known_Cons: "last_known owning (r # rs) = last_known (observe_possession owning r) rs"
  by (simp add: last_known_def observe_explicit split: option.splits list.splits)




lemma pff_iter_final: "snd (pff_iter sample n owning raw) = last_known owning raw"
  by (induction raw arbitrary: n owning)
    (simp_all add: last_known_Nil last_known_Cons case_prod_unfold Let_def split: option.splits)





lemma pff_iter_period:
  "list_all (\<lambda>(r, k, v). rf_period r = Some k) (fst (pff_iter sample n owning raw))"
  by (induction raw arbitrary: n owning)
    (simp_all add: Let_def case_prod_unfold split: option.splits)













subsection \<open>The possession state across calls on one PFF deserializer\<close>

lemma pff_iter_first_explicit:
  "explicit_possession r \<noteq> None \<Longrightarrow>
   pff_iter sample n s1 (r # rs) = pff_iter sample n s2 (r # rs)"
  by (auto simp: observe_explicit Let_def split: option.splits)

lemma load_json_raw_first:
  "load_json_raw limit sr i (Some r # rest) = Inr (f # others) \<Longrightarrow> f = r"
  by (auto split: if_splits sum.splits)

lemma pff_prepare_first:
  "pff_prepare cfg inputs = Inr ctx \<Longrightarrow> raw_data inputs = Some r # rest \<Longrightarrow>
   \<exists>others. ctx_raw_data ctx = r # others"
  by (auto simp: pff_prepare_def dest: load_json_raw_first
      split: sum.splits list.splits option.splits if_splits)

text \<open>
  Claim C8, as stated: the dataset of \<open>deserialize(X)\<close> does not depend on an earlier call
  on the same object. It does: \<open>X\<close> is one record without a possession cell; on a fresh
  object its frame has no ball-owning team, and after a call on a record with
  \<open>home_ball = true\<close> the same \<open>X\<close> gives a frame owned by the home team.
\<close>

theorem pff_state_shared_between_calls_counterexample:
  "map_sum id (\<lambda>d. map ball_owning_team (records d))
     (fst (pff_deserialize (\<lambda>_. LTR) ex_pff_config pff_init
        (ex_pff_inputs [ex_pff_frame 1 1 None 7]))) = Inr [None]
   \<and> map_sum id (\<lambda>d. map ball_owning_team (records d))
     (fst (pff_deserialize (\<lambda>_. LTR) ex_pff_config
        (snd (pff_deserialize (\<lambda>_. LTR) ex_pff_config pff_init
           (ex_pff_inputs [ex_pff_frame 1 1 (Some \<lparr>home_ball = Some True\<rparr>) 7])))
        (ex_pff_inputs [ex_pff_frame 1 1 None 7]))) = Inr [Some HOME]"
  by code_simp


text \<open>
  Claim C8, amended. The state is a field of the deserializer object, unknown from
  \<open>__init__\<close> on and not reset by \<open>deserialize\<close>. What \<open>deserialize(X)\<close> returns or raises
  is the same for every value an earlier call may have left, when the first raw record of
  \<open>X\<close> states possession explicitly.
\<close>

theorem pff_first_record_explicit_independent:
  assumes "raw_data inputs = Some r # rest"
    and "explicit_possession r \<noteq> None"
  shows "fst (pff_deserialize adf cfg s1 inputs) = fst (pff_deserialize adf cfg s2 inputs)"
proof (cases "pff_prepare cfg inputs")
  case (Inl e)
  then show ?thesis by (simp add: pff_deserialize_def)
next
  case (Inr ctx)
  from pff_prepare_first [OF Inr assms(1)] obtain others where
    raw: "ctx_raw_data ctx = r # others" by blast
  have "pff_iter (1 / pc_sample_rate cfg) 0 s1 (ctx_raw_data ctx)
      = pff_iter (1 / pc_sample_rate cfg) 0 s2 (ctx_raw_data ctx)"
    unfolding raw by (rule pff_iter_first_explicit [OF assms(2)])
  then have "fst (pff_frames cfg ctx s1) = fst (pff_frames cfg ctx s2)"
    "pc_sample_rate cfg \<noteq> 0 \<longrightarrow> pff_frames cfg ctx s1 = pff_frames cfg ctx s2"
    by (simp_all add: pff_frames_def)
  then show ?thesis using Inr
    by (cases "pc_sample_rate cfg = 0")
       (auto simp: pff_deserialize_def pff_frames_def split: sum.splits prod.splits)
qed


theorem pff_first_record_explicit_independent_witness:
  "raw_data (ex_pff_inputs ex_possession_stream)
     = Some (ex_pff_frame 1 1 (Some \<lparr>home_ball = Some True\<rparr>) 7)
       # map Some (tl ex_possession_stream)
   \<and> explicit_possession (ex_pff_frame 1 1 (Some \<lparr>home_ball = Some True\<rparr>) 7) \<noteq> None
   \<and> fst (pff_deserialize (\<lambda>_. LTR) ex_pff_config pff_init (ex_pff_inputs ex_possession_stream))
     = fst (pff_deserialize (\<lambda>_. LTR) ex_pff_config (Some AWAY) (ex_pff_inputs ex_possession_stream))"
proof -
  have h1: "raw_data (ex_pff_inputs ex_possession_stream)
     = Some (ex_pff_frame 1 1 (Some \<lparr>home_ball = Some True\<rparr>) 7)
       # map Some (tl ex_possession_stream)"
    by (simp add: ex_pff_inputs_def ex_possession_stream_def)
  have h2: "explicit_possession (ex_pff_frame 1 1 (Some \<lparr>home_ball = Some True\<rparr>) 7) \<noteq> None"
    by (simp add: explicit_possession_def ex_pff_frame_def)
  from pff_first_record_explicit_independent [OF h1 h2] h1 h2 show ?thesis by blast
qed

subsection \<open>The TRACAB sampler\<close>

lemma iter_periods_nths:
  "iter_periods sample t line n ps =
     (nths (map (\<lambda>p. (p, line)) (filter (\<lambda>p. start_timestamp p \<le> t \<and> t \<le> end_timestamp p) ps))
        {i. pymod (of_nat (n + i)) sample = 0},
      n + length (filter (\<lambda>p. start_timestamp p \<le> t \<and> t \<le> end_timestamp p) ps))"
proof (induction ps arbitrary: n)
  case Nil
  then show ?case by simp
next
  case (Cons p ps)
  show ?case
    using Cons.IH [of "Suc n"] Cons.IH [of n]
    by (simp add: nths_Cons del: of_nat_Suc of_nat_add)
qed



lemma sample_of_rate: "0 < k \<Longrightarrow> 1 / (1 / of_nat k :: rat) = of_nat k"
  by simp




subsection \<open>The tick of a TRACAB line\<close>

lemma py_split_nonempty: "py_split c s \<noteq> []"
  by (induction s) (auto split: list.splits)

lemma hd_py_split: "hd (py_split c s) = takeWhile (\<lambda>d. d \<noteq> c) s"
  using py_split_nonempty [of c] by (induction s) (auto split: list.splits)

lemma py_split_no_sep: "c \<notin> set s \<Longrightarrow> py_split c s = [s]"
  by (induction s) auto

lemma takeWhile_take_short:
  "length (takeWhile P l) \<le> n \<Longrightarrow> takeWhile P (take n l) = takeWhile P l"
proof (induction l arbitrary: n)
  case Nil
  then show ?case by simp
next
  case (Cons a l)
  then show ?case by (cases n) (auto split: if_splits)
qed

lemma takeWhile_dropWhile_swap:
  assumes "\<not> Q c"
  shows "takeWhile (\<lambda>d. d \<noteq> c) (dropWhile Q l) = dropWhile Q (takeWhile (\<lambda>d. d \<noteq> c) l)"
  using assms by (induction l) auto

lemma takeWhile_until_sep:
  "c \<notin> set a \<Longrightarrow> takeWhile (\<lambda>d. d \<noteq> c) (a @ c # b) = a"
  by (induction a) auto

lemma takeWhile_rstrip:
  assumes "c \<in> set m" and "\<not> Q c"
  shows "takeWhile (\<lambda>d. d \<noteq> c) (rev (dropWhile Q (rev m))) = takeWhile (\<lambda>d. d \<noteq> c) m"
proof -
  from assms(1) obtain a b where m: "m = a @ c # b" and a: "c \<notin> set a"
    by (auto dest: split_list_first)
  have "\<exists>z. dropWhile Q (rev m) = z @ c # rev a"
    using assms(2) by (auto simp: m dropWhile_append)
  then obtain z where "dropWhile Q (rev m) = z @ c # rev a" ..
  then have "rev (dropWhile Q (rev m)) = a @ c # rev z" by simp
  then show ?thesis using a by (simp add: m takeWhile_until_sep)
qed

lemma not_space_colon: "\<not> str_space CHR '':''"
  by (simp add: str_space_def bytes_space_def)

lemma set_strip_subset: "set (strip_with Q l) \<subseteq> set (dropWhile Q l)"
proof -
  have "set (rev (dropWhile Q (rev (dropWhile Q l)))) \<subseteq> set (dropWhile Q l)"
    using set_dropWhileD [of _ Q "rev (dropWhile Q l)"] by auto
  then show ?thesis by (simp add: strip_with_def)
qed

lemma py_int_dropWhile: "py_int (dropWhile str_space tok) = py_int tok"
  by (simp add: py_int_def strip_with_def dropWhile_idem)

lemma tick_of_stripped:
  assumes "CHR '':'' \<in> set (strip_with str_space l)"
  shows "py_int (takeWhile (\<lambda>d. d \<noteq> CHR '':'') (strip_with str_space l))
         = py_int (takeWhile (\<lambda>d. d \<noteq> CHR '':'') l)"
proof -
  from assms set_strip_subset have in_m: "CHR '':'' \<in> set (dropWhile str_space l)" by blast
  have "takeWhile (\<lambda>d. d \<noteq> CHR '':'') (strip_with str_space l)
      = takeWhile (\<lambda>d. d \<noteq> CHR '':'') (dropWhile str_space l)"
    unfolding strip_with_def
    using in_m not_space_colon by (rule takeWhile_rstrip)
  also have "\<dots> = dropWhile str_space (takeWhile (\<lambda>d. d \<noteq> CHR '':'') l)"
    using not_space_colon by (rule takeWhile_dropWhile_swap)
  finally show ?thesis by (simp add: py_int_dropWhile)
qed

lemma line_parts_tick:
  assumes "length (line_parts l) = 3"
    and "length (takeWhile (\<lambda>d. d \<noteq> CHR '':'') l) \<le> 10"
  shows "py_int (line_parts l ! 0) = tick_of_line l"
proof -
  let ?s = "strip_with str_space l"
  have sep: "CHR '':'' \<in> set ?s"
  proof (rule ccontr)
    assume "CHR '':'' \<notin> set ?s"
    then have "py_split CHR '':'' ?s = [?s]" by (rule py_split_no_sep)
    with assms(1) show False by (simp add: line_parts_def)
  qed
  have "line_parts l ! 0 = hd (py_split CHR '':'' ?s)"
    using py_split_nonempty [of "CHR '':''" ?s]
    by (cases "py_split CHR '':'' ?s") (simp_all add: line_parts_def)
  then have "py_int (line_parts l ! 0) = py_int (takeWhile (\<lambda>d. d \<noteq> CHR '':'') l)"
    by (simp add: hd_py_split tick_of_stripped [OF sep])
  then show ?thesis
    by (simp add: tick_of_line_def takeWhile_take_short [OF assms(2)])
qed

subsection \<open>What the TRACAB generator yields and what the loop assembles\<close>

lemma iter_periods_set:
  "(p, l) \<in> set (fst (iter_periods sample t line n ps)) \<Longrightarrow>
   l = line \<and> p \<in> set ps \<and> start_timestamp p \<le> t \<and> t \<le> end_timestamp p"
  using set_nths_subset
    [of "map (\<lambda>p. (p, line)) (filter (\<lambda>p. start_timestamp p \<le> t \<and> t \<le> end_timestamp p) ps)"
        "{i. pymod (of_nat (n + i)) sample = 0}"]
  by (auto simp: iter_periods_nths)

lemma clean_line_Inr: "clean_line raw = Inr line \<Longrightarrow> line = strip_with bytes_space raw"
  by (auto simp: clean_line_def decode_ascii_def split: if_splits)

lemma iter_lines_set:
  "Inr (p, line) \<in> set (iter_lines only_alive ps frame_rate sample n raws) \<Longrightarrow>
   p \<in> set ps \<and>
   (\<exists>raw fid. raw \<in> set raws \<and> clean_line raw = Inr line \<and> tick_of_line line = Inr fid
      \<and> start_timestamp p \<le> timedelta_seconds (of_int fid / frame_rate)
      \<and> timedelta_seconds (of_int fid / frame_rate) \<le> end_timestamp p)"
proof (induction raws arbitrary: n)
  case Nil
  then show ?case by simp
next
  case (Cons raw rest)
  show ?case
  proof (cases "clean_line raw")
    case (Inl e)
    with Cons.prems show ?thesis by simp
  next
    case cl: (Inr l)
    show ?thesis
    proof (cases "tick_of_line l")
      case (Inl e)
      with Cons.prems cl
      have "Inr (p, line) \<in> set (iter_lines only_alive ps frame_rate sample n rest)"
        by (auto split: if_splits)
      from Cons.IH [OF this] show ?thesis by auto
    next
      case tk: (Inr fid)
      let ?t = "timedelta_seconds (of_int fid / frame_rate)"
      from Cons.prems cl tk
      have "(\<exists>m. Inr (p, line) \<in> set (iter_lines only_alive ps frame_rate sample m rest))
          \<or> (p, line) \<in> set (fst (iter_periods sample ?t l n ps))"
        by (auto simp: case_prod_unfold Let_def split: if_splits)
      then show ?thesis
      proof
        assume "\<exists>m. Inr (p, line) \<in> set (iter_lines only_alive ps frame_rate sample m rest)"
        then obtain m where "Inr (p, line) \<in> set (iter_lines only_alive ps frame_rate sample m rest)" ..
        from Cons.IH [OF this] show ?thesis by auto
      next
        assume "(p, line) \<in> set (fst (iter_periods sample ?t l n ps))"
        from iter_periods_set [OF this] cl tk show ?thesis by auto
      qed
    qed
  qed
qed

lemma tracab_consume_frames:
  "tracab_consume to_float tr frame_rate limit teams n items = Inr (frs, teams') \<Longrightarrow>
   f \<in> set frs \<Longrightarrow>
   \<exists>p line t0 t1 f0. Inr (p, line) \<in> set items
      \<and> frame_from_line to_float t0 p line frame_rate = Inr (f0, t1)
      \<and> f = transform_frame tr f0"
proof (induction to_float tr frame_rate limit teams n items arbitrary: frs teams'
    rule: tracab_consume.induct)
  case (1 to_float tr frame_rate limit teams n)
  then show ?case by simp
next
  case (2 to_float tr frame_rate limit teams n e rest)
  then show ?case by simp
next
  case (3 to_float tr frame_rate limit teams n p line rest)
  from "3.prems"(1) obtain f1 t1 where
    ffl: "frame_from_line to_float teams p line frame_rate = Inr (f1, t1)"
    by (auto split: sum.splits)
  show ?case
  proof (cases "limit_break limit n")
    case True
    with "3.prems" ffl have "f = transform_frame tr f1" by auto
    with ffl have "Inr (p, line) \<in> set (Inr (p, line) # rest)
        \<and> frame_from_line to_float teams p line frame_rate = Inr (f1, t1)
        \<and> f = transform_frame tr f1" by simp
    then show ?thesis by blast
  next
    case False
    with "3.prems"(1) ffl obtain frs' where
      rest: "tracab_consume to_float tr frame_rate limit t1 (Suc n) rest = Inr (frs', teams')"
      and frs: "frs = transform_frame tr f1 # frs'"
      by (auto split: sum.splits)
    from "3.prems"(2) frs have "f = transform_frame tr f1 \<or> f \<in> set frs'" by auto
    then show ?thesis
    proof
      assume "f = transform_frame tr f1"
      with ffl have "Inr (p, line) \<in> set (Inr (p, line) # rest)
          \<and> frame_from_line to_float teams p line frame_rate = Inr (f1, t1)
          \<and> f = transform_frame tr f1" by simp
      then show ?thesis by blast
    next
      assume "f \<in> set frs'"
      from "3.IH" [OF ffl refl False rest this] obtain p' line' t0 t1' f0 where
        "Inr (p', line') \<in> set rest"
        "frame_from_line to_float t0 p' line' frame_rate = Inr (f0, t1')"
        "f = transform_frame tr f0" by blast
      then have "Inr (p', line') \<in> set (Inr (p, line) # rest)
          \<and> frame_from_line to_float t0 p' line' frame_rate = Inr (f0, t1')
          \<and> f = transform_frame tr f0" by simp
      then show ?thesis by blast
    qed
  qed
qed

lemma frame_from_line_success:
  "frame_from_line to_float teams p line frame_rate = Inr (f, teams') \<Longrightarrow>
   period f = p \<and> length (line_parts line) = 3
   \<and> py_int (line_parts line ! 0) = Inr (frame_id f)
   \<and> timestamp f = timedelta_seconds (of_int (frame_id f) / frame_rate) - start_timestamp p"
  by (auto simp: frame_from_line_def Let_def split: if_splits sum.splits)

lemma transform_frame_fields:
  "period (transform_frame tr f) = period f"
  "timestamp (transform_frame tr f) = timestamp f"
  "frame_id (transform_frame tr f) = frame_id f"
  by (simp_all add: transform_frame_def)

subsection \<open>Frame timestamps and period bounds\<close>

text \<open>
  Claim C1, as stated: the timestamp of a frame lies between the start and the end
  timestamp of its period. The TRACAB reader, on one line with tick 2500 at 25 frames per
  second and a period from second 100 to second 200, gives the frame the timestamp 0,
  which is below the period's start 100.
\<close>

theorem tracab_timestamp_counterexample:
  "map_sum id (\<lambda>d. map (\<lambda>f. (timestamp f, start_timestamp (period f), end_timestamp (period f)))
                     (records d))
     (tracab_deserialize decimal_float ex_transformer (\<lambda>_. LTR) (ex_tracab_config None 1)
        ex_tracab_meta [''2500::10.0,0.0,0.5,9.0,H,Alive;:''])
   = Inr [(0, 100, 200)]
   \<and> \<not> ((100 :: rat) \<le> 0)"
  by code_simp


text \<open>
  Claim C1, amended. In a dataset the TRACAB reader returns, from lines whose tick field
  is at most ten characters long, every frame references a period of the metadata, its
  timestamp is the time of its tick minus the period's start timestamp, and
  \<open>0 \<le> timestamp \<le> end_timestamp - start_timestamp\<close> of that period.
\<close>

theorem tracab_timestamp_relative:
  assumes "tracab_deserialize to_float tr adf cfg meta raw_lines = Inr d"
    and "list_all tick_short raw_lines"
    and "f \<in> set (records d)"
  shows "period f \<in> set (tm_periods meta)
       \<and> timestamp f = timedelta_seconds (of_int (frame_id f) / tm_frame_rate meta)
                         - start_timestamp (period f)
       \<and> 0 \<le> timestamp f
       \<and> timestamp f \<le> end_timestamp (period f) - start_timestamp (period f)"
proof -
  let ?items = "tracab_iter (tc_only_alive cfg) (tm_periods meta) (tm_frame_rate meta)
                  (tc_sample_rate cfg) raw_lines"
  from assms(1) obtain frs teams' where
    run: "tracab_consume to_float tr (tm_frame_rate meta) (tc_limit cfg) (tm_teams meta) 0 ?items
            = Inr (frs, teams')"
    and d: "records d = frs"
    by (auto simp: tracab_deserialize_def split: sum.splits)
  from assms(3) d have "f \<in> set frs" by simp
  from tracab_consume_frames [OF run this] obtain p line t0 t1 f0 where
    item: "Inr (p, line) \<in> set ?items"
    and ffl: "frame_from_line to_float t0 p line (tm_frame_rate meta) = Inr (f0, t1)"
    and f: "f = transform_frame tr f0"
    by blast
  from item have "Inr (p, line) \<in> set (iter_lines (tc_only_alive cfg) (tm_periods meta)
      (tm_frame_rate meta) (1 / tc_sample_rate cfg) 0 raw_lines)"
    by (auto simp: tracab_iter_def split: if_splits)
  from iter_lines_set [OF this] obtain raw fid where
    p: "p \<in> set (tm_periods meta)"
    and raw: "raw \<in> set raw_lines"
    and cl: "clean_line raw = Inr line"
    and tk: "tick_of_line line = Inr fid"
    and lo: "start_timestamp p \<le> timedelta_seconds (of_int fid / tm_frame_rate meta)"
    and hi: "timedelta_seconds (of_int fid / tm_frame_rate meta) \<le> end_timestamp p"
    by blast
  from frame_from_line_success [OF ffl] have
    per: "period f0 = p"
    and parts: "length (line_parts line) = 3"
    and fid0: "py_int (line_parts line ! 0) = Inr (frame_id f0)"
    and ts: "timestamp f0 = timedelta_seconds (of_int (frame_id f0) / tm_frame_rate meta)
                - start_timestamp p"
    by simp_all
  from assms(2) raw have "tick_short raw" by (simp add: list_all_iff)
  with clean_line_Inr [OF cl] have "length (takeWhile (\<lambda>c. c \<noteq> CHR '':'') line) \<le> 10"
    by (simp add: tick_short_def)
  from line_parts_tick [OF parts this] fid0 tk have "frame_id f0 = fid" by simp
  with ts lo hi per p f show ?thesis
    by (simp add: transform_frame_fields)
qed


theorem tracab_timestamp_relative_witness:
  "period (hd (records (projr (tracab_deserialize decimal_float ex_transformer (\<lambda>_. LTR)
       (ex_tracab_config None 1) ex_tracab_meta ex_tracab_lines)))) = ex_period
   \<and> timestamp (hd (records (projr (tracab_deserialize decimal_float ex_transformer (\<lambda>_. LTR)
       (ex_tracab_config None 1) ex_tracab_meta ex_tracab_lines)))) = 0
   \<and> (0 :: rat) \<le> end_timestamp ex_period - start_timestamp ex_period"
proof -
  let ?r = "tracab_deserialize decimal_float ex_transformer (\<lambda>_. LTR)
       (ex_tracab_config None 1) ex_tracab_meta ex_tracab_lines"
  have "\<not> isl ?r" by code_simp
  then have h1: "?r = Inr (projr ?r)" by simp
  have h2: "list_all tick_short ex_tracab_lines" by code_simp
  have "records (projr ?r) \<noteq> []" by code_simp
  then have h3: "hd (records (projr ?r)) \<in> set (records (projr ?r))" by simp
  have v1: "timestamp (hd (records (projr ?r))) = 0" by code_simp
  have v2: "period (hd (records (projr ?r))) = ex_period" by code_simp
  from tracab_timestamp_relative [OF h1 h2 h3] v1 v2 show ?thesis by simp
qed

subsection \<open>Sentinel team flags and format errors in the TRACAB reader\<close>















end
